theory Spec2Isabelle
  imports Complex_Main "HOL-Library.AList" "HOL-Library.Multiset"
begin

section \<open>Python values and errors\<close>

text \<open>
  Every exception the modelled code can raise is a value of \<open>error\<close>. A \<open>ValueError\<close>
  carries the message template of the source; the \<open>{}\<close> placeholders are left unfilled,
  because the string rendering of nodes is outside this development.
\<close>

datatype error =
    ValueError string
  | AssertionError
  | IndexError
  | AttributeError
  | NameError string
  | OverflowError
  | LookupFailed

text \<open>
  A Python float is a finite value, an infinity or a NaN. Only equality with \<open>1.0\<close> and
  \<open>-1.0\<close> is ever asked of it, so a finite float is represented by the rational it denotes.
\<close>

datatype pyfloat = Finite rat | PosInf | NegInf | NaN

text \<open>
  Objects that are neither numbers nor nodes: a named runtime \<open>Scalar\<close>, or anything else.
\<close>

datatype pyobj = Scalar string | Other

text \<open>Values that are not instances of \<open>Node\<close> (\<open>bool\<close> is an \<open>int\<close> in Python).\<close>

datatype pyval = PyFloat pyfloat | PyInt int | PyObj pyobj




section \<open>The expression tree\<close>

text \<open>
  \<open>Indices\<close> is an ordered sequence of unique index names, each with its extent.
  A \<open>Tensor\<close> is an external collaborator exposing name, base name, group tag and shape.
\<close>

type_synonym indices = "(char \<times> nat) list"

record tensor =
  tensor_name :: string
  tensor_baseName :: string
  tensor_group :: "nat option"
  tensor_shape :: "nat list"

text \<open>
  The scalar of a \<open>ScalarMultiplication\<close>. The constructor sets \<open>_isConstant\<close> exactly when
  it stores a float in \<open>_scalar\<close>, and nothing reassigns either field, so the two fields are
  one sum: \<open>Constant f\<close> is \<open>_isConstant = True, _scalar = f\<close> and \<open>Runtime x\<close> is
  \<open>_isConstant = False, _scalar = x\<close>.
\<close>

datatype scalar = Constant pyfloat | Runtime pyobj

text \<open>
  The class of a node with the attributes that only this class has. An \<open>IndexedTensor\<close>
  carries the identity of the Python object (two leaves are the same object iff their
  identities agree), which is what \<open>==\<close> compares, no class defining \<open>__eq__\<close>.
  \<open>LoopOverGEMM\<close> carries \<open>_m\<close>, \<open>_n\<close>, \<open>_k\<close>, \<open>_transA\<close> and \<open>_transB\<close>.
\<close>

datatype klass =
    CIndexedTensor nat tensor
  | CEinsum
  | CAdd
  | CScalarMultiplication scalar
  | CIndexSum indices
  | CProduct
  | CContraction indices
  | CLoopOverGEMM indices indices indices bool bool
  | CAssign

text \<open>
  A node has its class, \<open>indices\<close> (\<open>None\<close> until deduced), \<open>_eqspp\<close> (\<open>None\<close> until
  computed; the pattern type \<open>'p\<close> is opaque) and \<open>_children\<close>. Trees are values: the
  in-place updates of the source return the updated node.
\<close>

datatype 'p node =
  Node (klass: klass) (indices: "indices option") (eqspp: "'p option")
       (children: "'p node list")

datatype 'p operand = N "'p node" | V pyval

definition is_IndexedTensor :: "'p node \<Rightarrow> bool" where
  "is_IndexedTensor n = (case klass n of CIndexedTensor _ _ \<Rightarrow> True | _ \<Rightarrow> False)"


definition is_Add :: "'p node \<Rightarrow> bool" where
  "is_Add n = (klass n = CAdd)"

definition is_Einsum :: "'p node \<Rightarrow> bool" where
  "is_Einsum n = (klass n = CEinsum)"

text \<open>The two operation kinds \<open>_binOp\<close> is called with.\<close>

datatype opType = Einsum | Add

definition opClass :: "opType \<Rightarrow> klass" where
  "opClass T = (case T of Einsum \<Rightarrow> CEinsum | Add \<Rightarrow> CAdd)"

definition isinstance_op :: "'p node \<Rightarrow> opType \<Rightarrow> bool" where
  "isinstance_op n T = (klass n = opClass T)"

text \<open>\<open>self == other\<close>: object identity.\<close>

definition same_object :: "'p node \<Rightarrow> 'p node \<Rightarrow> bool" where
  "same_object a b =
     (case klass a of
        CIndexedTensor i _ \<Rightarrow> (case klass b of CIndexedTensor j _ \<Rightarrow> i = j | _ \<Rightarrow> False)
      | _ \<Rightarrow> False)"

subsection \<open>Constructors and child setters\<close>

text \<open>\<open>Op.__init__(*args)\<close>: the children are the arguments, nothing is checked.\<close>

definition Op_init :: "klass \<Rightarrow> 'p node list \<Rightarrow> 'p node" where
  "Op_init c args = Node c None None args"

definition Node_setChildren :: "'p node \<Rightarrow> 'p node list \<Rightarrow> 'p node" where
  "Node_setChildren self ch = Node (klass self) (indices self) (eqspp self) ch"

definition BinOp_setChildren :: "'p node \<Rightarrow> 'p node list \<Rightarrow> error + 'p node" where
  "BinOp_setChildren self ch =
     (if length ch \<noteq> 2 then Inl (ValueError ''BinOp node must have exactly 2 children.'')
      else Inr (Node_setChildren self ch))"

definition Assign_setChildren :: "'p node \<Rightarrow> 'p node list \<Rightarrow> error + 'p node" where
  "Assign_setChildren self ch =
     (case ch of
        [] \<Rightarrow> Inl IndexError
      | c # _ \<Rightarrow>
          if \<not> is_IndexedTensor c
          then Inl (ValueError ''First child of Assign node must be an IndexedTensor: '')
          else BinOp_setChildren self ch)"

text \<open>
  \<open>Assign(lTerm, rTerm)\<close>: \<open>Assign\<close> defines no constructor, \<open>BinOp.__init__\<close> passes both
  terms to \<open>Op.__init__\<close>, which stores them; \<open>setChildren\<close> is not called.
\<close>

definition Assign_init :: "'p node \<Rightarrow> 'p node \<Rightarrow> 'p node" where
  "Assign_init lTerm rTerm = Op_init CAssign [lTerm, rTerm]"





subsection \<open>The operators of \<open>Node\<close>\<close>



definition binOp :: "'p node \<Rightarrow> 'p node \<Rightarrow> opType \<Rightarrow> 'p node" where
  "binOp self other T =
     (if isinstance_op self T then
        (if isinstance_op other T
         then Node_setChildren self (children self @ children other)
         else Node_setChildren self (children self @ [other]))
      else if isinstance_op other T then Node_setChildren other (self # children other)
      else Op_init (opClass T) [self, other])"



definition add :: "'p node \<Rightarrow> 'p operand \<Rightarrow> error + 'p node" where
  "add self other =
     (case other of
        V _ \<Rightarrow> Inl (ValueError ''Unsupported operation: Cannot add {} to {}.'')
      | N n \<Rightarrow> Inr (binOp self n Add))"

definition radd :: "'p node \<Rightarrow> pyval \<Rightarrow> error + 'p node" where
  "radd self v = add self (V v)"


text \<open>\<open>__le__\<close>, the assignment operator \<open>self <= other\<close>.\<close>

definition le :: "'p node \<Rightarrow> 'p node \<Rightarrow> 'p node" where
  "le self other =
     (if is_IndexedTensor other \<and> \<not> same_object self other
      then Assign_init self (Op_init CEinsum [other])
      else Assign_init self other)"


section \<open>FLOP accounting\<close>

text \<open>
  The sparsity engine is opaque; \<open>count_nonzero\<close> is the parameter \<open>cnz\<close>. Reading
  \<open>count_nonzero\<close> of a pattern that is still \<open>None\<close> raises \<open>AttributeError\<close>.
\<close>

fun sum_child_nonzeros :: "('p \<Rightarrow> nat) \<Rightarrow> int \<Rightarrow> 'p node list \<Rightarrow> error + int" where
  "sum_child_nonzeros cnz nzFlops [] = Inr nzFlops"
| "sum_child_nonzeros cnz nzFlops (child # rest) =
     (case eqspp child of
        None \<Rightarrow> Inl AttributeError
      | Some p \<Rightarrow> sum_child_nonzeros cnz (nzFlops + int (cnz p)) rest)"

definition Add_nonZeroFlops :: "('p \<Rightarrow> nat) \<Rightarrow> 'p node \<Rightarrow> error + int" where
  "Add_nonZeroFlops cnz self =
     (case sum_child_nonzeros cnz 0 (children self) of
        Inl e \<Rightarrow> Inl e
      | Inr nzFlops \<Rightarrow>
          (case eqspp self of
             None \<Rightarrow> Inl AttributeError
           | Some p \<Rightarrow> Inr (nzFlops - int (cnz p))))"

text \<open>\<open>self._isConstant and self._scalar in [-1.0, 1.0]\<close>.\<close>

definition constant_unit_scalar :: "scalar \<Rightarrow> bool" where
  "constant_unit_scalar s =
     (case s of
        Constant f \<Rightarrow> f = Finite (- 1) \<or> f = Finite 1
      | Runtime _ \<Rightarrow> False)"

definition ScalarMultiplication_nonZeroFlops :: "('p \<Rightarrow> nat) \<Rightarrow> 'p node \<Rightarrow> error + int" where
  "ScalarMultiplication_nonZeroFlops cnz self =
     (case klass self of
        CScalarMultiplication s \<Rightarrow>
          if constant_unit_scalar s then Inr 0
          else (case eqspp self of
                  None \<Rightarrow> Inl AttributeError
                | Some p \<Rightarrow> Inr (int (cnz p)))
      | _ \<Rightarrow> Inl AttributeError)"

section \<open>GEMM mapping\<close>

definition err_bind :: "error + 'a \<Rightarrow> ('a \<Rightarrow> error + 'b) \<Rightarrow> error + 'b" where
  "err_bind m f = (case m of Inl e \<Rightarrow> Inl e | Inr x \<Rightarrow> f x)"

fun find_pos :: "char list \<Rightarrow> char \<Rightarrow> nat option" where
  "find_pos [] c = None"
| "find_pos (x # xs) c = (if x = c then Some 0 else map_option Suc (find_pos xs c))"

text \<open>
  Modelled from the spec: the class \<open>Indices\<close> is not among the sources. \<open>find\<close> is its
  position lookup, the position of an index name in the ordered sequence, failing for a
  name that is absent; \<open>I[0]\<close> is the first index name, failing on an empty sequence.
\<close>

definition Indices_find :: "indices \<Rightarrow> char \<Rightarrow> error + nat" where
  "Indices_find I c =
     (case find_pos (map fst I) c of None \<Rightarrow> Inl LookupFailed | Some p \<Rightarrow> Inr p)"

definition Indices_first :: "indices \<Rightarrow> error + char" where
  "Indices_first I = (case I of [] \<Rightarrow> Inl IndexError | x # _ \<Rightarrow> Inr (fst x))"

definition node_indices :: "'p node \<Rightarrow> error + indices" where
  "node_indices n = (case indices n of None \<Rightarrow> Inl AttributeError | Some I \<Rightarrow> Inr I)"

text \<open>\<open>term.indices.find(I[0])\<close>.\<close>

definition find_leading :: "'p node \<Rightarrow> indices \<Rightarrow> error + nat" where
  "find_leading t I =
     err_bind (node_indices t) (\<lambda>ti. err_bind (Indices_first I) (\<lambda>c. Indices_find ti c))"

definition isGEMV :: "indices \<Rightarrow> bool" where
  "isGEMV n = (length n = 0)"

definition LoopOverGEMM_init ::
  "indices \<Rightarrow> 'p node \<Rightarrow> 'p node \<Rightarrow> indices \<Rightarrow> indices \<Rightarrow> indices \<Rightarrow> error + 'p node" where
  "LoopOverGEMM_init I aTerm bTerm m n k =
     err_bind (find_leading aTerm m) (\<lambda>am.
     err_bind (find_leading aTerm k) (\<lambda>ak.
     err_bind (if \<not> isGEMV n
               then err_bind (find_leading bTerm k) (\<lambda>bk.
                    err_bind (find_leading bTerm n) (\<lambda>bn. Inr (bk > bn)))
               else Inr False) (\<lambda>transB.
     Inr (Node (CLoopOverGEMM m n k (am > ak) transB) (Some I) None [aTerm, bTerm]))))"

definition LoopOverGEMM_isGEMV :: "'p node \<Rightarrow> error + bool" where
  "LoopOverGEMM_isGEMV self =
     (case klass self of CLoopOverGEMM _ n _ _ _ \<Rightarrow> Inr (isGEMV n) | _ \<Rightarrow> Inl AttributeError)"

definition transA :: "'p node \<Rightarrow> error + bool" where
  "transA self =
     (case klass self of CLoopOverGEMM _ _ _ ta _ \<Rightarrow> Inr ta | _ \<Rightarrow> Inl AttributeError)"

definition transB :: "'p node \<Rightarrow> error + bool" where
  "transB self =
     (case klass self of CLoopOverGEMM _ _ _ _ tb \<Rightarrow> Inr tb | _ \<Rightarrow> Inl AttributeError)"

text \<open>
  The storage position of an index name in an index order, as the specification speaks of
  it: the place where the name stands.
\<close>

definition position_of :: "indices \<Rightarrow> char \<Rightarrow> nat \<Rightarrow> bool" where
  "position_of I c p = (p < length I \<and> fst (I ! p) = c \<and> c \<notin> fst ` set (take p I))"

section \<open>Lowering to a control-flow sequence\<close>

text \<open>
  Modelled from the spec: the classes \<open>Variable\<close>, \<open>Expression\<close>,
  \<open>ProgramAction\<close> and \<open>ProgramPoint\<close> are not among the sources. A \<open>Variable\<close>
  has a name, a writability flag, a memory layout, an optional sparsity pattern and, if
  it references a global tensor, that tensor; these are the arguments the pass constructs
  it with. The memory-layout type \<open>'l\<close> is opaque.
\<close>

record ('p, 'l) variable =
  var_name :: string
  var_writable :: bool
  var_memoryLayout :: 'l
  var_eqspp :: "'p option"
  var_tensor :: "tensor option"

text \<open>
  Modelled from the spec: the class \<open>Variable\<close> is not among the sources. A global
  variable is a \<open>Variable\<close> referencing a user-named \<open>Tensor\<close> rather than a temporary.
\<close>

definition isGlobal :: "('p, 'l) variable \<Rightarrow> bool" where
  "isGlobal var = (var_tensor var \<noteq> None)"

text \<open>
  The term of an action is an \<open>Expression\<close> (a node, its layout and its input variables)
  or a single source variable.
\<close>

datatype ('p, 'l) action_term =
    Expression "'p node" 'l "('p, 'l) variable list"
  | Var "('p, 'l) variable"

record ('p, 'l) ProgramAction =
  pa_result :: "('p, 'l) variable"
  pa_term :: "('p, 'l) action_term"
  pa_add :: bool
  pa_scalar :: "scalar option"

text \<open>
  The state of an \<open>AST2ControlFlow\<close> instance: \<open>_tmp\<close>, \<open>_cfg\<close> (each
  \<open>ProgramPoint\<close> wraps one action) and \<open>_writable\<close>.
\<close>

record ('p, 'l) AST2ControlFlow =
  st_tmp :: nat
  st_cfg :: "('p, 'l) ProgramAction list"
  st_writable :: "string set"

definition AST2ControlFlow_init :: "('p, 'l) AST2ControlFlow" where
  "AST2ControlFlow_init = \<lparr>st_tmp = 0, st_cfg = [], st_writable = {}\<rparr>"

text \<open>
  What the pass asks of its collaborators: \<open>_ml\<close>, the memory layout of a node (by either
  of its two branches; it raises where the node cannot answer), and the rendering
  \<open>str\<close> of a float.
\<close>

record ('p, 'l) env =
  env_ml :: "'p node \<Rightarrow> error + 'l"
  env_str :: "pyfloat \<Rightarrow> string"

fun string_of_nat :: "nat \<Rightarrow> string" where
  "string_of_nat n =
     (if n < 10 then [char_of (48 + n)]
      else string_of_nat (n div 10) @ [char_of (48 + n mod 10)])"

declare string_of_nat.simps [simp del]

text \<open>\<open>name()\<close>, which \<open>IndexedTensor\<close> and \<open>ScalarMultiplication\<close> define.\<close>

definition Node_name :: "('p, 'l) env \<Rightarrow> 'p node \<Rightarrow> error + string" where
  "Node_name E n =
     (case klass n of
        CIndexedTensor _ T \<Rightarrow> Inr (tensor_name T)
      | CScalarMultiplication s \<Rightarrow>
          (case s of
             Constant f \<Rightarrow> Inr (env_str E f)
           | Runtime (Scalar nm) \<Rightarrow> Inr nm
           | Runtime Other \<Rightarrow> Inl AttributeError)
      | _ \<Rightarrow> Inl AttributeError)"

definition addAction ::
  "('p, 'l) AST2ControlFlow \<Rightarrow> ('p, 'l) ProgramAction \<Rightarrow> ('p, 'l) AST2ControlFlow" where
  "addAction s a = s\<lparr>st_cfg := st_cfg s @ [a]\<rparr>"

definition nextTemporary ::
  "('p, 'l) env \<Rightarrow> ('p, 'l) AST2ControlFlow \<Rightarrow> 'p node
   \<Rightarrow> error + (('p, 'l) variable \<times> ('p, 'l) AST2ControlFlow)" where
  "nextTemporary E s n =
     (case env_ml E n of
        Inl e \<Rightarrow> Inl e
      | Inr l \<Rightarrow>
          Inr (\<lparr>var_name = ''_tmp'' @ string_of_nat (st_tmp s), var_writable = True,
                var_memoryLayout = l, var_eqspp = eqspp n, var_tensor = None\<rparr>,
               s\<lparr>st_tmp := st_tmp s + 1\<rparr>))"

definition visit_IndexedTensor ::
  "('p, 'l) env \<Rightarrow> ('p, 'l) AST2ControlFlow \<Rightarrow> 'p node \<Rightarrow> tensor
   \<Rightarrow> error + (('p, 'l) variable \<times> ('p, 'l) AST2ControlFlow)" where
  "visit_IndexedTensor E s n T =
     (case env_ml E n of
        Inl e \<Rightarrow> Inl e
      | Inr l \<Rightarrow>
          Inr (\<lparr>var_name = tensor_name T, var_writable = (tensor_name T \<in> st_writable s),
                var_memoryLayout = l, var_eqspp = eqspp n, var_tensor = Some T\<rparr>, s))"

text \<open>The sort key of \<open>visit_Add\<close>: \<open>int(not var.writable) + int(not var.isGlobal())\<close>.\<close>

definition add_key :: "('p, 'l) variable \<Rightarrow> nat" where
  "add_key var = (if var_writable var then 0 else 1) + (if isGlobal var then 0 else 1)"

text \<open>The loop of \<open>visit_Add\<close> over the sorted variables, with its flag \<open>add\<close>.\<close>

fun add_actions ::
  "('p, 'l) variable \<Rightarrow> bool \<Rightarrow> ('p, 'l) variable list \<Rightarrow> ('p, 'l) ProgramAction list" where
  "add_actions tmp a [] = []"
| "add_actions tmp a (var # vars) =
     \<lparr>pa_result = tmp, pa_term = Var var, pa_add = a, pa_scalar = None\<rparr>
       # add_actions tmp True vars"

text \<open>
  \<open>visit_Add\<close> after its children have been visited. \<open>list.sort\<close> is stable, and so is
  \<open>sort_key\<close>.
\<close>

definition visit_Add_emit ::
  "('p, 'l) env \<Rightarrow> ('p, 'l) AST2ControlFlow \<Rightarrow> 'p node \<Rightarrow> ('p, 'l) variable list
   \<Rightarrow> error + (('p, 'l) variable \<times> ('p, 'l) AST2ControlFlow)" where
  "visit_Add_emit E s n variables =
     (if \<not> length variables > 1 then Inl AssertionError
      else (case nextTemporary E s n of
              Inl e \<Rightarrow> Inl e
            | Inr (tmp, s1) \<Rightarrow>
                Inr (tmp, s1\<lparr>st_cfg := st_cfg s1
                                @ add_actions tmp False (sort_key add_key variables)\<rparr>)))"

definition generic_emit ::
  "('p, 'l) env \<Rightarrow> ('p, 'l) AST2ControlFlow \<Rightarrow> 'p node \<Rightarrow> ('p, 'l) variable list
   \<Rightarrow> error + (('p, 'l) variable \<times> ('p, 'l) AST2ControlFlow)" where
  "generic_emit E s n variables =
     (case nextTemporary E s n of
        Inl e \<Rightarrow> Inl e
      | Inr (res, s1) \<Rightarrow>
          (case env_ml E n of
             Inl e \<Rightarrow> Inl e
           | Inr l \<Rightarrow>
               Inr (res, addAction s1 \<lparr>pa_result = res, pa_term = Expression n l variables,
                                        pa_add = False, pa_scalar = None\<rparr>)))"

definition ScalarMultiplication_emit ::
  "('p, 'l) env \<Rightarrow> ('p, 'l) AST2ControlFlow \<Rightarrow> 'p node \<Rightarrow> scalar \<Rightarrow> ('p, 'l) variable
   \<Rightarrow> error + (('p, 'l) variable \<times> ('p, 'l) AST2ControlFlow)" where
  "ScalarMultiplication_emit E s n sc var =
     (case nextTemporary E s n of
        Inl e \<Rightarrow> Inl e
      | Inr (res, s1) \<Rightarrow>
          Inr (res, addAction s1 \<lparr>pa_result = res, pa_term = Var var, pa_add = False,
                                   pa_scalar = Some sc\<rparr>))"

definition Assign_emit ::
  "('p, 'l) AST2ControlFlow \<Rightarrow> ('p, 'l) variable list
   \<Rightarrow> error + (('p, 'l) variable \<times> ('p, 'l) AST2ControlFlow)" where
  "Assign_emit s variables =
     (case variables of
        v0 # v1 # _ \<Rightarrow>
          Inr (v0, addAction s \<lparr>pa_result = v0, pa_term = Var v1, pa_add = False,
                                 pa_scalar = None\<rparr>)
      | _ \<Rightarrow> Inl IndexError)"

text \<open>
  Modelled from the spec: the base class \<open>Visitor\<close> with its method \<open>visit\<close> is not
  among the sources. \<open>visit\<close> has one behaviour per node kind: \<open>visit_Add\<close>,
  \<open>visit_ScalarMultiplication\<close>, \<open>visit_Assign\<close> and \<open>visit_IndexedTensor\<close> for their
  kinds, \<open>generic_visit\<close> for every kind with no dedicated rule. The bodies are those of
  the source; \<open>visit_children\<close> is the comprehension
  \<open>[self.visit(child) for child in node]\<close>, threading the state from left to right.
\<close>

fun visit ::
  "('p, 'l) env \<Rightarrow> ('p, 'l) AST2ControlFlow \<Rightarrow> 'p node
   \<Rightarrow> error + (('p, 'l) variable \<times> ('p, 'l) AST2ControlFlow)"
and visit_children ::
  "('p, 'l) env \<Rightarrow> ('p, 'l) AST2ControlFlow \<Rightarrow> 'p node list
   \<Rightarrow> error + (('p, 'l) variable list \<times> ('p, 'l) AST2ControlFlow)"
where
  "visit E s (Node c i e ch) =
     (case c of
        CIndexedTensor _ T \<Rightarrow> visit_IndexedTensor E s (Node c i e ch) T
      | CAdd \<Rightarrow>
          (case visit_children E s ch of
             Inl err \<Rightarrow> Inl err
           | Inr (variables, s1) \<Rightarrow> visit_Add_emit E s1 (Node c i e ch) variables)
      | CScalarMultiplication sc \<Rightarrow>
          (case ch of
             [] \<Rightarrow> Inl IndexError
           | t # _ \<Rightarrow>
               (case visit E s t of
                  Inl err \<Rightarrow> Inl err
                | Inr (var, s1) \<Rightarrow> ScalarMultiplication_emit E s1 (Node c i e ch) sc var))
      | CAssign \<Rightarrow>
          (case ch of
             [] \<Rightarrow> Inl IndexError
           | l # _ \<Rightarrow>
               (case Node_name E l of
                  Inl err \<Rightarrow> Inl err
                | Inr nm \<Rightarrow>
                    (case visit_children E (s\<lparr>st_writable := st_writable s \<union> {nm}\<rparr>) ch of
                       Inl err \<Rightarrow> Inl err
                     | Inr (variables, s1) \<Rightarrow> Assign_emit s1 variables)))
      | _ \<Rightarrow>
          (case visit_children E s ch of
             Inl err \<Rightarrow> Inl err
           | Inr (variables, s1) \<Rightarrow> generic_emit E s1 (Node c i e ch) variables))"
| "visit_children E s [] = Inr ([], s)"
| "visit_children E s (child # rest) =
     (case visit E s child of
        Inl err \<Rightarrow> Inl err
      | Inr (var, s1) \<Rightarrow>
          (case visit_children E s1 rest of
             Inl err \<Rightarrow> Inl err
           | Inr (vars, s2) \<Rightarrow> Inr (var # vars, s2)))"


section \<open>Collecting the tensors of a kernel\<close>

text \<open>
  The loop of \<open>OptimisedKernelGenerator.generate\<close> over the sorted global variables. The
  ordered dictionary \<open>tensors\<close> is an association list, \<open>AList.update\<close> keeping the place
  of a key that is present and appending a new one. In the \<open>raise\<close> statement the
  arguments of \<open>format\<close> are evaluated first, and \<open>node\<close> is bound nowhere in
  \<open>generate\<close> nor in its module, so what is raised is a \<open>NameError\<close>.
\<close>

fun generate_tensors ::
  "(string \<times> nat set option) list \<Rightarrow> ('p, 'l) variable list
   \<Rightarrow> error + (string \<times> nat set option) list" where
  "generate_tensors tensors [] = Inr tensors"
| "generate_tensors tensors (var # rest) =
     (case var_tensor var of
        None \<Rightarrow> Inl AttributeError
      | Some T \<Rightarrow>
          (let bn = tensor_baseName T; g = tensor_group T in
           case map_of tensors bn of
             Some p \<Rightarrow>
               if p \<noteq> None \<and> g \<noteq> None
               then generate_tensors (AList.update bn (Some (the p \<union> {the g})) tensors) rest
               else if \<not> (p = None \<and> g = None) then Inl (NameError ''node'')
               else generate_tensors tensors rest
           | None \<Rightarrow>
               generate_tensors
                 (AList.update bn (case g of Some x \<Rightarrow> Some {x} | None \<Rightarrow> None) tensors) rest))"

text \<open>
  Two variables of a list mix grouped and ungrouped tensors under one base name.
\<close>

definition mixed_grouping :: "('p, 'l) variable list \<Rightarrow> bool" where
  "mixed_grouping vars =
     (\<exists>v \<in> set vars. \<exists>w \<in> set vars. \<exists>S T. var_tensor v = Some S \<and> var_tensor w = Some T
        \<and> tensor_baseName S = tensor_baseName T
        \<and> (tensor_group S = None) \<noteq> (tensor_group T = None))"

section \<open>Example values\<close>

definition ex_tensor :: "string \<Rightarrow> nat option \<Rightarrow> tensor" where
  "ex_tensor nm g =
     \<lparr>tensor_name = nm, tensor_baseName = nm, tensor_group = g, tensor_shape = [2, 2]\<rparr>"

definition ex_indices :: indices where
  "ex_indices = [(CHR ''i'', 2), (CHR ''j'', 2)]"

definition ex_leaf :: "nat \<Rightarrow> string \<Rightarrow> 'p option \<Rightarrow> 'p node" where
  "ex_leaf oid nm p = Node (CIndexedTensor oid (ex_tensor nm None)) (Some ex_indices) p []"

definition ex_env :: "('p, unit) env" where
  "ex_env = \<lparr>env_ml = (\<lambda>_. Inr ()), env_str = (\<lambda>_. ''const'')\<rparr>"

definition ex_global :: "string \<Rightarrow> nat option \<Rightarrow> (unit, unit) variable" where
  "ex_global nm g =
     \<lparr>var_name = nm, var_writable = False, var_memoryLayout = (), var_eqspp = None,
      var_tensor = Some (ex_tensor nm g)\<rparr>"

definition ex_temp :: "nat \<Rightarrow> (unit, unit) variable" where
  "ex_temp k =
     \<lparr>var_name = ''_tmp'' @ string_of_nat k, var_writable = True, var_memoryLayout = (),
      var_eqspp = None, var_tensor = None\<rparr>"

definition ex_product :: "unit node" where
  "ex_product = Node CProduct None None [ex_leaf 1 ''A'' None, ex_leaf 2 ''B'' None]"

text \<open>The sum \<open>D + A * B\<close>, and the state in which its lowering ends.\<close>

definition ex_sum :: "unit node" where
  "ex_sum = Node CAdd None None [ex_leaf 0 ''D'' None, ex_product]"

definition ex_sum_state :: "(unit, unit) AST2ControlFlow" where
  "ex_sum_state =
     \<lparr>st_tmp = 2,
      st_cfg =
        [\<lparr>pa_result = ex_temp 0,
          pa_term = Expression ex_product () [ex_global ''A'' None, ex_global ''B'' None],
          pa_add = False, pa_scalar = None\<rparr>,
         \<lparr>pa_result = ex_temp 1, pa_term = Var (ex_global ''D'' None),
          pa_add = False, pa_scalar = None\<rparr>,
         \<lparr>pa_result = ex_temp 1, pa_term = Var (ex_temp 0),
          pa_add = True, pa_scalar = None\<rparr>],
      st_writable = {}\<rparr>"







text \<open>Nodes with sparsity patterns, a pattern being its count of non-zeros.\<close>

definition ex_add_counted :: "nat node" where
  "ex_add_counted =
     Node CAdd (Some ex_indices) (Some 3) [ex_leaf 0 ''A'' (Some 2), ex_leaf 1 ''B'' (Some 2)]"

definition ex_negated :: "nat node" where
  "ex_negated =
     Node (CScalarMultiplication (Constant (Finite (- 1)))) (Some ex_indices) None
       [ex_leaf 0 ''A'' (Some 2)]"

definition ex_tripled :: "nat node" where
  "ex_tripled =
     Node (CScalarMultiplication (Constant (Finite 3))) (Some ex_indices) (Some 4)
       [ex_leaf 0 ''A'' (Some 4)]"

text \<open>The operands \<open>A[ki]\<close> and \<open>B[kj]\<close> of a GEMM with result \<open>C[ij]\<close>.\<close>

definition ex_gemm_A :: "unit node" where
  "ex_gemm_A =
     Node (CIndexedTensor 0 (ex_tensor ''A'' None)) (Some [(CHR ''k'', 2), (CHR ''i'', 2)])
       None []"

definition ex_gemm_B :: "unit node" where
  "ex_gemm_B =
     Node (CIndexedTensor 1 (ex_tensor ''B'' None)) (Some [(CHR ''k'', 2), (CHR ''j'', 2)])
       None []"

definition ex_gemm :: "unit node" where
  "ex_gemm =
     Node (CLoopOverGEMM [(CHR ''i'', 2)] [(CHR ''j'', 2)] [(CHR ''k'', 2)] True False)
       (Some ex_indices) None [ex_gemm_A, ex_gemm_B]"

text \<open>The operand \<open>B[k]\<close> and the matrix-vector node \<open>C[i] = A[ki] B[k]\<close>.\<close>

definition ex_gemv_B :: "unit node" where
  "ex_gemv_B = Node (CIndexedTensor 1 (ex_tensor ''B'' None)) (Some [(CHR ''k'', 2)]) None []"

definition ex_gemv :: "unit node" where
  "ex_gemv =
     Node (CLoopOverGEMM [(CHR ''i'', 2)] [] [(CHR ''k'', 2)] True False)
       (Some [(CHR ''i'', 2)]) None [ex_gemm_A, ex_gemv_B]"

text \<open>
  Base name and groupedness of a global variable, and a variable whose groupedness
  disagrees with what the dictionary holds for its base name.
\<close>

definition var_base :: "('p, 'l) variable \<Rightarrow> string" where
  "var_base var = tensor_baseName (the (var_tensor var))"

definition var_grouped :: "('p, 'l) variable \<Rightarrow> bool" where
  "var_grouped var = (tensor_group (the (var_tensor var)) \<noteq> None)"

definition conflicts :: "(string \<times> nat set option) list \<Rightarrow> ('p, 'l) variable \<Rightarrow> bool" where
  "conflicts tensors var =
     (\<exists>p. map_of tensors (var_base var) = Some p \<and> (p \<noteq> None) \<noteq> var_grouped var)"

section \<open>Composition of expressions\<close>

text \<open>
  C7. For expressions \<open>A\<close>, \<open>B\<close>, \<open>C\<close>, none of them an \<open>Add\<close> node, \<open>(A + B) + C\<close> and
  \<open>A + (B + C)\<close> both are the one \<open>Add\<close> node with the children \<open>[A, B, C]\<close>, in this
  order; no \<open>Add\<close> is nested in it.
\<close>

theorem add_three_flat:
  assumes "\<not> is_Add A" and "\<not> is_Add B" and "\<not> is_Add C"
  shows "add A (N B) = Inr (Op_init CAdd [A, B])
       \<and> add (Op_init CAdd [A, B]) (N C) = Inr (Node CAdd None None [A, B, C])
       \<and> add B (N C) = Inr (Op_init CAdd [B, C])
       \<and> add A (N (Op_init CAdd [B, C])) = Inr (Node CAdd None None [A, B, C])"
  using assms
  by (simp add: add_def binOp_def isinstance_op_def opClass_def is_Add_def Op_init_def
      Node_setChildren_def)

text \<open>C7 at the three tensors \<open>A\<close>, \<open>B\<close>, \<open>C\<close>.\<close>

theorem add_three_flat_witness:
  "\<not> is_Add (ex_leaf 0 ''A'' None :: unit node) \<and> \<not> is_Add (ex_leaf 1 ''B'' None :: unit node)
   \<and> \<not> is_Add (ex_leaf 2 ''C'' None :: unit node)
   \<and> add (Op_init CAdd [ex_leaf 0 ''A'' None, ex_leaf 1 ''B'' None])
          (N (ex_leaf 2 ''C'' None :: unit node))
       = Inr (Node CAdd None None
                [ex_leaf 0 ''A'' None, ex_leaf 1 ''B'' None, ex_leaf 2 ''C'' None])
   \<and> add (ex_leaf 0 ''A'' None :: unit node)
          (N (Op_init CAdd [ex_leaf 1 ''B'' None, ex_leaf 2 ''C'' None]))
       = Inr (Node CAdd None None
                [ex_leaf 0 ''A'' None, ex_leaf 1 ''B'' None, ex_leaf 2 ''C'' None])"
proof -
  have h: "\<not> is_Add (ex_leaf 0 ''A'' None :: unit node)"
          "\<not> is_Add (ex_leaf 1 ''B'' None :: unit node)"
          "\<not> is_Add (ex_leaf 2 ''C'' None :: unit node)"
    by (simp_all add: is_Add_def ex_leaf_def)
  show ?thesis using h add_three_flat [OF h] by simp
qed

text \<open>
  C10. For every node \<open>n\<close> and every value \<open>v\<close> that is not a node, \<open>n + v\<close> and
  \<open>v + n\<close> raise \<open>ValueError\<close>; neither yields a node.
\<close>

theorem add_non_node_raises:
  "add n (V v) = Inl (ValueError ''Unsupported operation: Cannot add {} to {}.'')
   \<and> radd n v = Inl (ValueError ''Unsupported operation: Cannot add {} to {}.'')
   \<and> (\<forall>r. add n (V v) \<noteq> Inr r \<and> radd n v \<noteq> Inr r)"
  by (simp add: add_def radd_def)

text \<open>
  C4, as stated, fails: assigning an \<open>IndexedTensor\<close> to itself, \<open>X <= X\<close> with one
  object on both sides, leaves the bare \<open>IndexedTensor\<close> as the right child.
\<close>

theorem le_self_bare_counterexample:
  "is_IndexedTensor (ex_leaf 0 ''A'' None :: unit node)
   \<and> children (le (ex_leaf 0 ''A'' None :: unit node) (ex_leaf 0 ''A'' None))
       = [ex_leaf 0 ''A'' None, ex_leaf 0 ''A'' None]
   \<and> is_IndexedTensor
        (children (le (ex_leaf 0 ''A'' None :: unit node) (ex_leaf 0 ''A'' None)) ! 1)"
  by (simp add: le_def is_IndexedTensor_def same_object_def ex_leaf_def Assign_init_def
        Op_init_def)

text \<open>
  C4, amended. With an \<open>IndexedTensor\<close> on the left, \<open><=\<close> yields an \<open>Assign\<close> whose
  right child is the right operand wrapped in an \<open>Einsum\<close> when that operand is an
  \<open>IndexedTensor\<close> other than the left object, and the right operand itself otherwise; the
  right child is a bare \<open>IndexedTensor\<close> exactly when both operands are the same object.
\<close>

theorem le_wraps_other_tensor:
  assumes "is_IndexedTensor l"
  shows "klass (le l r) = CAssign
       \<and> children (le l r) =
           [l, if is_IndexedTensor r \<and> \<not> same_object l r then Op_init CEinsum [r] else r]
       \<and> (is_IndexedTensor (children (le l r) ! 1) \<longleftrightarrow> same_object l r)"
  using assms
  by (cases l; cases r)
     (auto simp: le_def is_IndexedTensor_def same_object_def Assign_init_def Op_init_def
           split: klass.splits)

text \<open>C4, amended, at \<open>A <= B\<close> for two distinct tensors.\<close>

theorem le_wraps_other_tensor_witness:
  "is_IndexedTensor (ex_leaf 0 ''A'' None :: unit node)
   \<and> children (le (ex_leaf 0 ''A'' None :: unit node) (ex_leaf 1 ''B'' None))
       = [ex_leaf 0 ''A'' None, Op_init CEinsum [ex_leaf 1 ''B'' None]]"
proof -
  have h: "is_IndexedTensor (ex_leaf 0 ''A'' None :: unit node)"
    by (simp add: is_IndexedTensor_def ex_leaf_def)
  have d: "is_IndexedTensor (ex_leaf 1 ''B'' None :: unit node)
           \<and> \<not> same_object (ex_leaf 0 ''A'' None :: unit node) (ex_leaf 1 ''B'' None)"
    by (simp add: is_IndexedTensor_def same_object_def ex_leaf_def)
  show ?thesis using h d le_wraps_other_tensor [OF h, of "ex_leaf 1 ''B'' None"] by simp
qed

text \<open>
  C1. The constructor of \<open>Assign\<close> accepts a left operand that is not an
  \<open>IndexedTensor\<close>: \<open>Assign(Einsum(A, B), C)\<close> and \<open>(A * B) <= C\<close> are \<open>Assign\<close> nodes
  whose first child is the product, where \<open>setChildren\<close> with the same children raises.
\<close>

theorem Assign_init_unchecked:
  "\<not> is_IndexedTensor (Op_init CEinsum [ex_leaf 0 ''A'' None, ex_leaf 1 ''B'' None] :: unit node)
   \<and> Assign_init (Op_init CEinsum [ex_leaf 0 ''A'' None, ex_leaf 1 ''B'' None])
        (ex_leaf 2 ''C'' None :: unit node)
       = Node CAssign None None
           [Op_init CEinsum [ex_leaf 0 ''A'' None, ex_leaf 1 ''B'' None], ex_leaf 2 ''C'' None]
   \<and> le (Op_init CEinsum [ex_leaf 0 ''A'' None, ex_leaf 1 ''B'' None])
        (ex_leaf 2 ''C'' None :: unit node)
       = Node CAssign None None
           [Op_init CEinsum [ex_leaf 0 ''A'' None, ex_leaf 1 ''B'' None],
            Op_init CEinsum [ex_leaf 2 ''C'' None]]
   \<and> Assign_setChildren (Assign_init (ex_leaf 2 ''C'' None) (ex_leaf 2 ''C'' None))
        [Op_init CEinsum [ex_leaf 0 ''A'' None, ex_leaf 1 ''B'' None],
         ex_leaf 2 ''C'' None :: unit node]
       = Inl (ValueError ''First child of Assign node must be an IndexedTensor: '')"
  by (simp add: le_def is_IndexedTensor_def same_object_def ex_leaf_def Assign_init_def
        Op_init_def Assign_setChildren_def)

section \<open>Properties of the lowering pass\<close>



lemma visit_children_length:
  "visit_children E s ch = Inr (vs, s') \<Longrightarrow> length vs = length ch"
  by (induction ch arbitrary: s vs s') (auto split: sum.splits)

lemma add_actions_length: "length (add_actions t a vs) = length vs"
  by (induction vs arbitrary: a) auto

lemma add_actions_result: "map pa_result (add_actions t a vs) = replicate (length vs) t"
  by (induction vs arbitrary: a) auto

lemma add_actions_term: "map pa_term (add_actions t a vs) = map Var vs"
  by (induction vs arbitrary: a) auto

lemma add_actions_scalar: "map pa_scalar (add_actions t a vs) = replicate (length vs) None"
  by (induction vs arbitrary: a) auto

lemma add_actions_add_True: "map pa_add (add_actions t True vs) = replicate (length vs) True"
  by (induction vs) auto

lemma add_actions_add:
  "vs \<noteq> [] \<Longrightarrow> map pa_add (add_actions t False vs) = False # replicate (length vs - 1) True"
  by (cases vs) (auto simp: add_actions_add_True)

lemma add_key_cases:
  "add_key v = 0 \<longleftrightarrow> var_writable v \<and> isGlobal v"
  "add_key v = 1 \<longleftrightarrow> (var_writable v \<noteq> isGlobal v)"
  "add_key v = 2 \<longleftrightarrow> \<not> var_writable v \<and> \<not> isGlobal v"
  by (auto simp: add_key_def)

lemma ex_sum_visit:
  "visit ex_env AST2ControlFlow_init ex_sum = Inr (ex_temp 1, ex_sum_state)"
  by (simp add: ex_env_def AST2ControlFlow_init_def ex_sum_def ex_product_def ex_leaf_def
        ex_temp_def ex_global_def ex_tensor_def visit_IndexedTensor_def visit_Add_emit_def
        generic_emit_def nextTemporary_def addAction_def add_key_def isGlobal_def
        string_of_nat.simps ex_sum_state_def)

text \<open>
  C2, as stated, fails. Lowering \<open>D + A * B\<close>, where \<open>D\<close> was never assigned, the operands
  of the \<open>Add\<close> are the global \<open>D\<close>, not writable, and the writable temporary of the
  product; the sort leaves them in this order, so the operand that is not writable is
  assigned first and the writable one is accumulated.
\<close>

theorem visit_Add_order_counterexample:
  "visit ex_env AST2ControlFlow_init ex_sum = Inr (ex_temp 1, ex_sum_state)
   \<and> map pa_term (st_cfg ex_sum_state)
       = [Expression ex_product () [ex_global ''A'' None, ex_global ''B'' None],
          Var (ex_global ''D'' None), Var (ex_temp 0)]
   \<and> map pa_add (st_cfg ex_sum_state) = [False, False, True]
   \<and> \<not> var_writable (ex_global ''D'' None) \<and> var_writable (ex_temp 0)"
  using ex_sum_visit by (simp add: ex_sum_state_def ex_global_def ex_temp_def)

text \<open>
  C2, amended. Lowering an \<open>Add\<close> node visits its children from left to right and
  needs more than one of them. The evaluated variables are reordered by a stable sort on
  the key that counts 1 for not being writable and 1 for not being global: variables both
  writable and global come first, those with exactly one of the two properties next, in
  their original relative order, those with neither last. One action per operand is
  appended, all into one temporary named after the counter, the first with
  \<open>add = False\<close> and every later one with \<open>add = True\<close>.
\<close>

theorem visit_Add_actions:
  assumes "visit (E :: ('p, 'l) env) s (Node CAdd i e ch) = Inr (tmp, s')"
  shows "\<exists>variables s1 acts.
           visit_children E s ch = Inr (variables, s1)
         \<and> length variables = length ch \<and> 1 < length ch
         \<and> var_name tmp = ''_tmp'' @ string_of_nat (st_tmp s1) \<and> \<not> isGlobal tmp
         \<and> st_tmp s' = st_tmp s1 + 1
         \<and> st_cfg s' = st_cfg s1 @ acts
         \<and> length acts = length ch
         \<and> map pa_result acts = replicate (length ch) tmp
         \<and> map pa_term acts = map Var (sort_key add_key variables)
         \<and> map pa_add acts = False # replicate (length ch - 1) True
         \<and> mset (sort_key add_key variables) = mset variables
         \<and> sorted (map add_key (sort_key add_key variables))
         \<and> (\<forall>k. filter (\<lambda>v. add_key v = k) (sort_key add_key variables)
                 = filter (\<lambda>v. add_key v = k) variables)
         \<and> (\<forall>v :: ('p, 'l) variable. (add_key v = 0 \<longleftrightarrow> var_writable v \<and> isGlobal v)
               \<and> (add_key v = 1 \<longleftrightarrow> var_writable v \<noteq> isGlobal v)
               \<and> (add_key v = 2 \<longleftrightarrow> \<not> var_writable v \<and> \<not> isGlobal v))"
proof -
  from assms obtain variables s1 where
    vc: "visit_children E s ch = Inr (variables, s1)" and
    em: "visit_Add_emit E s1 (Node CAdd i e ch) variables = Inr (tmp, s')"
    by (auto split: sum.splits)
  have len: "length variables = length ch" using vc by (rule visit_children_length)
  from em have gt: "1 < length variables"
    by (auto simp: visit_Add_emit_def split: if_splits)
  from em gt obtain s2 where
    nt: "nextTemporary E s1 (Node CAdd i e ch) = Inr (tmp, s2)" and
    s': "s' = s2\<lparr>st_cfg := st_cfg s2 @ add_actions tmp False (sort_key add_key variables)\<rparr>"
    by (auto simp: visit_Add_emit_def split: sum.splits)
  from nt have tmp: "var_name tmp = ''_tmp'' @ string_of_nat (st_tmp s1)" "\<not> isGlobal tmp"
    and s2: "st_tmp s2 = st_tmp s1 + 1" "st_cfg s2 = st_cfg s1"
    by (auto simp: nextTemporary_def isGlobal_def split: sum.splits)
  let ?sv = "sort_key add_key variables"
  let ?acts = "add_actions tmp False ?sv"
  have ne: "?sv \<noteq> []" using gt by (metis length_sort list.size(3) not_less_zero)
  have a1: "length ?acts = length ch" using len by (simp add: add_actions_length)
  have a2: "map pa_result ?acts = replicate (length ch) tmp"
    using len by (simp add: add_actions_result)
  have a3: "map pa_term ?acts = map Var ?sv" by (rule add_actions_term)
  have a4: "map pa_add ?acts = False # replicate (length ch - 1) True"
    using add_actions_add[OF ne, of tmp] len by simp
  have a5: "st_cfg s' = st_cfg s1 @ ?acts" "st_tmp s' = st_tmp s1 + 1"
    using s' s2 by simp_all
  have st: "\<forall>k. filter (\<lambda>v. add_key v = k) ?sv = filter (\<lambda>v. add_key v = k) variables"
    by (simp add: sort_key_stable)
  have kc: "\<forall>v :: ('p, 'l) variable.
               (add_key v = 0 \<longleftrightarrow> var_writable v \<and> isGlobal v)
             \<and> (add_key v = 1 \<longleftrightarrow> var_writable v \<noteq> isGlobal v)
             \<and> (add_key v = 2 \<longleftrightarrow> \<not> var_writable v \<and> \<not> isGlobal v)"
    by (auto simp: add_key_def)
  have gt': "1 < length ch" using gt len by simp
  have ms: "mset ?sv = mset variables" by simp
  have so: "sorted (map add_key ?sv)" by simp
  show ?thesis
    apply (rule exI[of _ variables], rule exI[of _ s1], rule exI[of _ ?acts])
    apply (intro conjI)
    apply (fact vc len gt' tmp a5 a1 a2 a3 a4 ms so st kc)+
    done
qed

text \<open>C2, amended, at the sum \<open>D + A * B\<close>.\<close>

theorem visit_Add_actions_witness:
  "visit ex_env AST2ControlFlow_init (Node CAdd None None [ex_leaf 0 ''D'' None, ex_product])
     = Inr (ex_temp 1, ex_sum_state)
   \<and> (\<exists>variables s1 acts.
         visit_children ex_env AST2ControlFlow_init [ex_leaf 0 ''D'' None, ex_product]
           = Inr (variables, s1)
       \<and> st_cfg ex_sum_state = st_cfg s1 @ acts
       \<and> map pa_term acts = map Var (sort_key add_key variables)
       \<and> map pa_add acts = [False, True])"
proof -
  have h: "visit ex_env AST2ControlFlow_init
             (Node CAdd None None [ex_leaf 0 ''D'' None, ex_product])
           = Inr (ex_temp 1, ex_sum_state)"
    using ex_sum_visit by (simp only: ex_sum_def)
  from visit_Add_actions [OF h] obtain variables s1 acts where
    "visit_children ex_env AST2ControlFlow_init [ex_leaf 0 ''D'' None, ex_product]
       = Inr (variables, s1)"
    "st_cfg ex_sum_state = st_cfg s1 @ acts"
    "map pa_term acts = map Var (sort_key add_key variables)"
    "map pa_add acts
       = False # replicate (length [ex_leaf 0 ''D'' None, ex_product] - 1) True"
    by (elim exE conjE)
  then show ?thesis using h by (intro conjI exI[of _ variables] exI[of _ s1] exI[of _ acts]) simp_all
qed

section \<open>Scalar multiplication\<close>









section \<open>Writable registration\<close>








section \<open>FLOP counts\<close>

lemma sum_child_nonzeros_eq:
  "\<forall>c \<in> set cs. eqspp c \<noteq> None \<Longrightarrow>
   sum_child_nonzeros cnz acc cs = Inr (acc + (\<Sum>c\<leftarrow>cs. int (cnz (the (eqspp c)))))"
  by (induction cs arbitrary: acc) auto

text \<open>
  C6. With the patterns of all children and of the node itself computed, the
  \<open>nonZeroFlops\<close> of an \<open>Add\<close> node is the sum of the non-zero counts of its children
  minus the non-zero count of its own pattern. The \<open>nonZeroFlops\<close> of a
  \<open>ScalarMultiplication\<close> is 0 when its scalar is the constant \<open>1.0\<close> or \<open>-1.0\<close>, and
  the non-zero count of its own pattern for every other scalar.
\<close>

theorem nonZeroFlops_Add_ScalarMultiplication:
  "((\<forall>c \<in> set (children n). eqspp c \<noteq> None) \<and> eqspp n = Some p \<longrightarrow>
      Add_nonZeroFlops cnz n
        = Inr ((\<Sum>c\<leftarrow>children n. int (cnz (the (eqspp c)))) - int (cnz p)))
   \<and> (klass m = CScalarMultiplication sc
       \<and> (sc = Constant (Finite 1) \<or> sc = Constant (Finite (- 1)))
      \<longrightarrow> ScalarMultiplication_nonZeroFlops cnz m = Inr 0)
   \<and> (klass m' = CScalarMultiplication sc'
       \<and> sc' \<noteq> Constant (Finite 1) \<and> sc' \<noteq> Constant (Finite (- 1)) \<and> eqspp m' = Some q
      \<longrightarrow> ScalarMultiplication_nonZeroFlops cnz m' = Inr (int (cnz q)))"
  by (auto simp: Add_nonZeroFlops_def sum_child_nonzeros_eq ScalarMultiplication_nonZeroFlops_def
        constant_unit_scalar_def split: scalar.splits)

text \<open>C6 at a sum with counts 2, 2 and 3, at \<open>-A\<close> and at \<open>3 * A\<close> with count 4.\<close>

theorem nonZeroFlops_Add_ScalarMultiplication_witness:
  "eqspp ex_add_counted = Some 3
   \<and> map eqspp (children ex_add_counted) = [Some 2, Some 2]
   \<and> Add_nonZeroFlops (\<lambda>p. p) ex_add_counted = Inr 1
   \<and> klass ex_negated = CScalarMultiplication (Constant (Finite (- 1)))
   \<and> ScalarMultiplication_nonZeroFlops (\<lambda>p. p) ex_negated = Inr 0
   \<and> klass ex_tripled = CScalarMultiplication (Constant (Finite 3))
   \<and> ScalarMultiplication_nonZeroFlops (\<lambda>p. p) ex_tripled = Inr 4"
proof -
  have h1: "(\<forall>c \<in> set (children ex_add_counted). eqspp c \<noteq> None)
            \<and> eqspp ex_add_counted = Some 3"
    by (simp add: ex_add_counted_def ex_leaf_def)
  have h2: "klass ex_negated = CScalarMultiplication (Constant (Finite (- 1)))
            \<and> (Constant (Finite (- 1)) = Constant (Finite 1)
                \<or> Constant (Finite (- 1)) = Constant (Finite (- 1)))"
    by (simp add: ex_negated_def)
  have h3: "klass ex_tripled = CScalarMultiplication (Constant (Finite 3))
            \<and> Constant (Finite 3) \<noteq> Constant (Finite 1)
            \<and> Constant (Finite 3) \<noteq> Constant (Finite (- 1)) \<and> eqspp ex_tripled = Some 4"
    by (simp add: ex_tripled_def)
  have c: "map eqspp (children ex_add_counted) = [Some 2, Some 2]"
          "(\<Sum>c\<leftarrow>children ex_add_counted. int (the (eqspp c))) = 4"
    by (simp_all add: ex_add_counted_def ex_leaf_def)
  from nonZeroFlops_Add_ScalarMultiplication
         [of ex_add_counted 3 "\<lambda>p. p" ex_negated "Constant (Finite (- 1))"
             ex_tripled "Constant (Finite 3)" 4] h1 h2 h3 c
  show ?thesis by simp
qed

section \<open>GEMM flags\<close>

lemma find_pos_position:
  "find_pos (map fst I) c = Some p \<Longrightarrow> position_of I c p"
proof (induction I arbitrary: p)
  case Nil
  then show ?case by simp
next
  case (Cons x I)
  show ?case
  proof (cases "fst x = c")
    case True
    with Cons.prems show ?thesis by (simp add: position_of_def)
  next
    case False
    with Cons.prems obtain p' where p': "find_pos (map fst I) c = Some p'" "p = Suc p'"
      by auto
    from Cons.IH[OF p'(1)] False p'(2) show ?thesis
      by (auto simp: position_of_def)
  qed
qed

lemma find_leading_position:
  "find_leading t I = Inr p \<Longrightarrow>
   \<exists>ti. indices t = Some ti \<and> I \<noteq> [] \<and> position_of ti (fst (hd I)) p"
  by (auto simp: find_leading_def err_bind_def node_indices_def Indices_first_def
        Indices_find_def find_pos_position
      split: option.splits list.splits sum.splits)

lemma position_find_pos:
  "position_of I c p \<Longrightarrow> find_pos (map fst I) c = Some p"
proof (induction I arbitrary: p)
  case Nil
  then show ?case by (simp add: position_of_def)
next
  case (Cons x I)
  show ?case
  proof (cases p)
    case 0
    with Cons.prems show ?thesis by (simp add: position_of_def)
  next
    case (Suc p')
    with Cons.prems have ne: "fst x \<noteq> c" and p': "position_of I c p'"
      by (auto simp: position_of_def)
    from Cons.IH[OF p'] ne Suc show ?thesis by simp
  qed
qed

lemma position_find_leading:
  "indices t = Some ti \<Longrightarrow> J \<noteq> [] \<Longrightarrow> position_of ti (fst (hd J)) p \<Longrightarrow>
   find_leading t J = Inr p"
  by (cases J)
     (simp_all add: find_leading_def err_bind_def node_indices_def Indices_first_def
        Indices_find_def position_find_pos)

lemma LoopOverGEMM_init_flags:
  assumes "LoopOverGEMM_init I a b m n k = Inr g"
  shows "LoopOverGEMM_isGEMV g = Inr (n = [])
       \<and> (\<exists>ai pm pk. indices a = Some ai \<and> m \<noteq> [] \<and> k \<noteq> []
            \<and> position_of ai (fst (hd m)) pm \<and> position_of ai (fst (hd k)) pk
            \<and> transA g = Inr (pk < pm))
       \<and> (n = [] \<longrightarrow> transB g = Inr False)
       \<and> (n \<noteq> [] \<longrightarrow>
            (\<exists>bi pk pn. indices b = Some bi
               \<and> position_of bi (fst (hd k)) pk \<and> position_of bi (fst (hd n)) pn
               \<and> transB g = Inr (pn < pk)))"
proof -
  from assms obtain am ak tb where
    am: "find_leading a m = Inr am" and ak: "find_leading a k = Inr ak" and
    tb: "(if \<not> isGEMV n
          then err_bind (find_leading b k) (\<lambda>bk.
               err_bind (find_leading b n) (\<lambda>bn. Inr (bk > bn)))
          else Inr False) = Inr tb" and
    g: "g = Node (CLoopOverGEMM m n k (am > ak) tb) (Some I) None [a, b]"
    by (auto simp: LoopOverGEMM_init_def err_bind_def split: sum.splits)
  have gemv: "LoopOverGEMM_isGEMV g = Inr (n = [])"
    by (simp add: g LoopOverGEMM_isGEMV_def isGEMV_def)
  from find_leading_position[OF am] obtain ai where
    ai: "indices a = Some ai" "m \<noteq> []" "position_of ai (fst (hd m)) am" by blast
  from find_leading_position[OF ak] ai(1) have
    ak': "k \<noteq> []" "position_of ai (fst (hd k)) ak" by auto
  have A: "\<exists>ai pm pk. indices a = Some ai \<and> m \<noteq> [] \<and> k \<noteq> []
            \<and> position_of ai (fst (hd m)) pm \<and> position_of ai (fst (hd k)) pk
            \<and> transA g = Inr (pk < pm)"
    using ai ak' by (intro exI[of _ ai] exI[of _ am] exI[of _ ak]) (simp add: g transA_def)
  have B1: "n = [] \<longrightarrow> transB g = Inr False"
    using tb by (auto simp: g transB_def isGEMV_def)
  have B2: "\<exists>bi pk pn. indices b = Some bi
               \<and> position_of bi (fst (hd k)) pk \<and> position_of bi (fst (hd n)) pn
               \<and> transB g = Inr (pn < pk)" if "n \<noteq> []"
  proof -
    from tb that obtain bk bn where
      bk: "find_leading b k = Inr bk" and bn: "find_leading b n = Inr bn" and
      "tb = (bk > bn)"
      by (auto simp: isGEMV_def err_bind_def split: sum.splits)
    from find_leading_position[OF bk] obtain bi where
      bi: "indices b = Some bi" "position_of bi (fst (hd k)) bk" by blast
    from find_leading_position[OF bn] bi(1) have
      bn': "position_of bi (fst (hd n)) bn" by auto
    show ?thesis
      using bi bn' \<open>tb = (bk > bn)\<close>
      by (intro exI[of _ bi] exI[of _ bk] exI[of _ bn]) (simp add: g transB_def)
  qed
  show ?thesis using gemv A B1 B2 by blast
qed


text \<open>
  C8. For every \<open>LoopOverGEMM\<close> node that the constructor yields from the partition
  \<open>(m, n, k)\<close>: \<open>isGEMV\<close> holds iff \<open>n\<close> is empty; the left operand is flagged
  transposed iff, in its index order, the position of the leading index of \<open>m\<close> comes after
  that of the leading index of \<open>k\<close>; the right operand is never flagged when \<open>n\<close> is
  empty, and otherwise iff, in its index order, the position of the leading index of \<open>k\<close>
  comes after that of the leading index of \<open>n\<close>. And the constructor does yield these
  nodes: with the leading indices of \<open>m\<close> and \<open>k\<close> standing in the left operand, the
  node with empty \<open>n\<close> is built whatever the right operand is, and the node with a
  non-empty \<open>n\<close> is built when the leading indices of \<open>k\<close> and \<open>n\<close> stand in the
  right operand.
\<close>

theorem LoopOverGEMM_flags:
  "(LoopOverGEMM_init I a b m n k = Inr g \<longrightarrow>
      LoopOverGEMM_isGEMV g = Inr (n = [])
    \<and> (\<exists>ai pm pk. indices a = Some ai \<and> m \<noteq> [] \<and> k \<noteq> []
          \<and> position_of ai (fst (hd m)) pm \<and> position_of ai (fst (hd k)) pk
          \<and> transA g = Inr (pk < pm))
    \<and> (n = [] \<longrightarrow> transB g = Inr False)
    \<and> (n \<noteq> [] \<longrightarrow>
          (\<exists>bi pk pn. indices b = Some bi
             \<and> position_of bi (fst (hd k)) pk \<and> position_of bi (fst (hd n)) pn
             \<and> transB g = Inr (pn < pk))))
   \<and> (indices a' = Some ai' \<and> m' \<noteq> [] \<and> k' \<noteq> []
       \<and> position_of ai' (fst (hd m')) am \<and> position_of ai' (fst (hd k')) ak \<longrightarrow>
         LoopOverGEMM_init I' a' b' m' [] k'
           = Inr (Node (CLoopOverGEMM m' [] k' (ak < am) False) (Some I') None [a', b'])
       \<and> (indices b' = Some bi' \<and> n' \<noteq> []
           \<and> position_of bi' (fst (hd k')) bk \<and> position_of bi' (fst (hd n')) bn \<longrightarrow>
             LoopOverGEMM_init I' a' b' m' n' k'
               = Inr (Node (CLoopOverGEMM m' n' k' (ak < am) (bn < bk)) (Some I') None
                        [a', b'])))"
proof -
  have c1: "LoopOverGEMM_init I a b m n k = Inr g \<longrightarrow>
      LoopOverGEMM_isGEMV g = Inr (n = [])
    \<and> (\<exists>ai pm pk. indices a = Some ai \<and> m \<noteq> [] \<and> k \<noteq> []
          \<and> position_of ai (fst (hd m)) pm \<and> position_of ai (fst (hd k)) pk
          \<and> transA g = Inr (pk < pm))
    \<and> (n = [] \<longrightarrow> transB g = Inr False)
    \<and> (n \<noteq> [] \<longrightarrow>
          (\<exists>bi pk pn. indices b = Some bi
             \<and> position_of bi (fst (hd k)) pk \<and> position_of bi (fst (hd n)) pn
             \<and> transB g = Inr (pn < pk)))"
    using LoopOverGEMM_init_flags by (rule impI)
  have c2: "indices a' = Some ai' \<and> m' \<noteq> [] \<and> k' \<noteq> []
       \<and> position_of ai' (fst (hd m')) am \<and> position_of ai' (fst (hd k')) ak \<longrightarrow>
         LoopOverGEMM_init I' a' b' m' [] k'
           = Inr (Node (CLoopOverGEMM m' [] k' (ak < am) False) (Some I') None [a', b'])
       \<and> (indices b' = Some bi' \<and> n' \<noteq> []
           \<and> position_of bi' (fst (hd k')) bk \<and> position_of bi' (fst (hd n')) bn \<longrightarrow>
             LoopOverGEMM_init I' a' b' m' n' k'
               = Inr (Node (CLoopOverGEMM m' n' k' (ak < am) (bn < bk)) (Some I') None
                        [a', b']))"
  proof
    assume h: "indices a' = Some ai' \<and> m' \<noteq> [] \<and> k' \<noteq> []
       \<and> position_of ai' (fst (hd m')) am \<and> position_of ai' (fst (hd k')) ak"
    then have fm: "find_leading a' m' = Inr am" and fk: "find_leading a' k' = Inr ak"
      by (simp_all add: position_find_leading)
    have gemv: "LoopOverGEMM_init I' a' b' m' [] k'
           = Inr (Node (CLoopOverGEMM m' [] k' (ak < am) False) (Some I') None [a', b'])"
      using fm fk by (simp add: LoopOverGEMM_init_def err_bind_def isGEMV_def)
    have gemm: "LoopOverGEMM_init I' a' b' m' n' k'
               = Inr (Node (CLoopOverGEMM m' n' k' (ak < am) (bn < bk)) (Some I') None [a', b'])"
      if hb: "indices b' = Some bi' \<and> n' \<noteq> []
           \<and> position_of bi' (fst (hd k')) bk \<and> position_of bi' (fst (hd n')) bn"
    proof -
      from hb h have fbk: "find_leading b' k' = Inr bk" and fbn: "find_leading b' n' = Inr bn"
        by (simp_all add: position_find_leading)
      show ?thesis
        using fm fk fbk fbn hb by (simp add: LoopOverGEMM_init_def err_bind_def isGEMV_def)
    qed
    show "LoopOverGEMM_init I' a' b' m' [] k'
           = Inr (Node (CLoopOverGEMM m' [] k' (ak < am) False) (Some I') None [a', b'])
       \<and> (indices b' = Some bi' \<and> n' \<noteq> []
           \<and> position_of bi' (fst (hd k')) bk \<and> position_of bi' (fst (hd n')) bn \<longrightarrow>
             LoopOverGEMM_init I' a' b' m' n' k'
               = Inr (Node (CLoopOverGEMM m' n' k' (ak < am) (bn < bk)) (Some I') None
                        [a', b']))"
      using gemv gemm by (intro conjI impI)
  qed
  show ?thesis by (rule conjI[OF c1 c2])
qed

text \<open>
  C8 at \<open>C[ij] = A[ki] B[kj]\<close>, where the left operand is transposed and the right is
  not, and at the matrix-vector product \<open>C[i] = A[ki] B[k]\<close> with empty \<open>n\<close>.
\<close>

theorem LoopOverGEMM_flags_witness:
  "LoopOverGEMM_init ex_indices ex_gemm_A ex_gemm_B
     [(CHR ''i'', 2)] [(CHR ''j'', 2)] [(CHR ''k'', 2)] = Inr ex_gemm
   \<and> LoopOverGEMM_isGEMV ex_gemm = Inr False
   \<and> transA ex_gemm = Inr True \<and> transB ex_gemm = Inr False
   \<and> LoopOverGEMM_init [(CHR ''i'', 2)] ex_gemm_A ex_gemv_B
        [(CHR ''i'', 2)] [] [(CHR ''k'', 2)] = Inr ex_gemv
   \<and> LoopOverGEMM_isGEMV ex_gemv = Inr True
   \<and> transA ex_gemv = Inr True \<and> transB ex_gemv = Inr False"
proof -
  have pa: "indices ex_gemm_A = Some [(CHR ''k'', 2), (CHR ''i'', 2)]
            \<and> [(CHR ''i'', 2 :: nat)] \<noteq> [] \<and> [(CHR ''k'', 2 :: nat)] \<noteq> []
            \<and> position_of [(CHR ''k'', 2), (CHR ''i'', 2)] (fst (hd [(CHR ''i'', 2 :: nat)])) 1
            \<and> position_of [(CHR ''k'', 2), (CHR ''i'', 2)] (fst (hd [(CHR ''k'', 2 :: nat)])) 0"
    by (simp add: ex_gemm_A_def position_of_def)
  have pb: "indices ex_gemm_B = Some [(CHR ''k'', 2), (CHR ''j'', 2)]
            \<and> [(CHR ''j'', 2 :: nat)] \<noteq> []
            \<and> position_of [(CHR ''k'', 2), (CHR ''j'', 2)] (fst (hd [(CHR ''k'', 2 :: nat)])) 0
            \<and> position_of [(CHR ''k'', 2), (CHR ''j'', 2)] (fst (hd [(CHR ''j'', 2 :: nat)])) 1"
    by (simp add: ex_gemm_B_def position_of_def)
  note gemm = LoopOverGEMM_flags
    [where a' = ex_gemm_A and ai' = "[(CHR ''k'', 2), (CHR ''i'', 2)]"
       and m' = "[(CHR ''i'', 2)]" and k' = "[(CHR ''k'', 2)]" and am = 1 and ak = 0
       and I' = ex_indices and b' = ex_gemm_B and bi' = "[(CHR ''k'', 2), (CHR ''j'', 2)]"
       and n' = "[(CHR ''j'', 2)]" and bk = 0 and bn = 1
       and I = ex_indices and a = ex_gemm_A and b = ex_gemm_B and m = "[(CHR ''i'', 2)]"
       and n = "[(CHR ''j'', 2)]" and k = "[(CHR ''k'', 2)]" and g = ex_gemm]
  note gemv = LoopOverGEMM_flags
    [where a' = ex_gemm_A and ai' = "[(CHR ''k'', 2), (CHR ''i'', 2)]"
       and m' = "[(CHR ''i'', 2)]" and k' = "[(CHR ''k'', 2)]" and am = 1 and ak = 0
       and I' = "[(CHR ''i'', 2)]" and b' = ex_gemv_B
       and I = "[(CHR ''i'', 2)]" and a = ex_gemm_A and b = ex_gemv_B and m = "[(CHR ''i'', 2)]"
       and n = "[]" and k = "[(CHR ''k'', 2)]" and g = ex_gemv]
  have i1: "LoopOverGEMM_init ex_indices ex_gemm_A ex_gemm_B
     [(CHR ''i'', 2)] [(CHR ''j'', 2)] [(CHR ''k'', 2)] = Inr ex_gemm"
    using gemm pa pb by (simp add: ex_gemm_def)
  have i2: "LoopOverGEMM_init [(CHR ''i'', 2)] ex_gemm_A ex_gemv_B
        [(CHR ''i'', 2)] [] [(CHR ''k'', 2)] = Inr ex_gemv"
    using gemv pa by (simp add: ex_gemv_def)
  have f1: "LoopOverGEMM_isGEMV ex_gemm = Inr False" using gemm i1 by simp
  have f2: "LoopOverGEMM_isGEMV ex_gemv = Inr True \<and> transB ex_gemv = Inr False"
    using gemv i2 by simp
  have f3: "transA ex_gemm = Inr True" "transB ex_gemm = Inr False" "transA ex_gemv = Inr True"
    by (simp_all add: transA_def transB_def ex_gemm_def ex_gemv_def)
  show ?thesis using i1 i2 f1 f2 f3 by simp
qed

section \<open>Grouped and single tensors\<close>

lemma mixed_grouping_alt:
  "\<forall>v \<in> set vars. var_tensor v \<noteq> None \<Longrightarrow>
   mixed_grouping vars \<longleftrightarrow>
   (\<exists>v \<in> set vars. \<exists>w \<in> set vars. var_base v = var_base w \<and> var_grouped v \<noteq> var_grouped w)"
  unfolding mixed_grouping_def var_base_def var_grouped_def
  by (rule iffI) (fastforce, metis option.exhaust_sel)

lemma generate_tensors_step:
  "var_tensor v \<noteq> None \<Longrightarrow>
   generate_tensors acc (v # vs) =
     (case map_of acc (var_base v) of
        None \<Rightarrow>
          generate_tensors
            (AList.update (var_base v)
               (case tensor_group (the (var_tensor v)) of Some x \<Rightarrow> Some {x} | None \<Rightarrow> None) acc)
            vs
      | Some p \<Rightarrow>
          if (p \<noteq> None) \<noteq> var_grouped v then Inl (NameError ''node'')
          else if var_grouped v
          then generate_tensors
                 (AList.update (var_base v)
                    (Some (the p \<union> {the (tensor_group (the (var_tensor v)))})) acc) vs
          else generate_tensors acc vs)"
  by (auto simp: var_base_def var_grouped_def Let_def split: option.splits)

lemma conflicts_update:
  "conflicts (AList.update k p acc) w \<longleftrightarrow>
     (if var_base w = k then (p \<noteq> None) \<noteq> var_grouped w else conflicts acc w)"
  by (simp add: conflicts_def update_conv')

lemma generate_tensors_fails_iff_aux:
  fixes vars :: "('p, 'l) variable list"
  shows "\<forall>v \<in> set vars. var_tensor v \<noteq> None \<Longrightarrow>
   (\<exists>err. generate_tensors acc vars = Inl err) \<longleftrightarrow>
   (\<exists>v \<in> set vars. conflicts acc v)
   \<or> (\<exists>v \<in> set vars. \<exists>w \<in> set vars. var_base v = var_base w \<and> var_grouped v \<noteq> var_grouped w)"
proof (induction vars arbitrary: acc)
  case Nil
  then show ?case by simp
next
  case (Cons v vs)
  have tv: "var_tensor v \<noteq> None" and all: "\<forall>w \<in> set vs. var_tensor w \<noteq> None"
    using Cons.prems by simp_all
  note IH = Cons.IH[OF all]
  note step = generate_tensors_step[OF tv, of acc vs]
  let ?mix = "\<lambda>xs. \<exists>a \<in> set xs. \<exists>b \<in> set xs. var_base a = var_base b \<and> var_grouped a \<noteq> var_grouped b"
  have mixC: "?mix (v # vs) \<longleftrightarrow> ?mix vs \<or> (\<exists>w \<in> set vs. var_base w = var_base v \<and> var_grouped w \<noteq> var_grouped v)"
  proof
    assume "?mix (v # vs)"
    then obtain a b where ab: "a \<in> set (v # vs)" "b \<in> set (v # vs)"
      "var_base a = var_base b" "var_grouped a \<noteq> var_grouped b" by blast
    consider "a = v" "b = v" | "a = v" "b \<in> set vs" | "a \<in> set vs" "b = v"
      | "a \<in> set vs" "b \<in> set vs" using ab(1,2) by auto
    then show "?mix vs \<or> (\<exists>w \<in> set vs. var_base w = var_base v \<and> var_grouped w \<noteq> var_grouped v)"
    proof cases
      case 1
      then show ?thesis using ab(4) by simp
    next
      case 2
      then show ?thesis using ab(3,4) by metis
    next
      case 3
      then show ?thesis using ab(3,4) by metis
    next
      case 4
      then show ?thesis using ab(3,4) by blast
    qed
  next
    assume r: "?mix vs \<or> (\<exists>w \<in> set vs. var_base w = var_base v \<and> var_grouped w \<noteq> var_grouped v)"
    then show "?mix (v # vs)"
    proof
      assume "?mix vs"
      then obtain a b where "a \<in> set vs" "b \<in> set vs"
        "var_base a = var_base b" "var_grouped a \<noteq> var_grouped b" by blast
      then have "a \<in> set (v # vs)" "b \<in> set (v # vs)"
        "var_base a = var_base b" "var_grouped a \<noteq> var_grouped b" by simp_all
      then show ?thesis by blast
    next
      assume "\<exists>w \<in> set vs. var_base w = var_base v \<and> var_grouped w \<noteq> var_grouped v"
      then obtain w where "w \<in> set vs" "var_base w = var_base v"
        "var_grouped w \<noteq> var_grouped v" by blast
      then have "w \<in> set (v # vs)" "v \<in> set (v # vs)"
        "var_base w = var_base v" "var_grouped w \<noteq> var_grouped v" by simp_all
      then show ?thesis by blast
    qed
  qed
  show ?case
  proof (cases "map_of acc (var_base v)")
    case None
    let ?p = "case tensor_group (the (var_tensor v)) of Some x \<Rightarrow> Some {x} | None \<Rightarrow> None"
    have pg: "(?p \<noteq> None) = var_grouped v"
      by (simp add: var_grouped_def split: option.splits)
    have nc: "\<not> conflicts acc v" using None by (simp add: conflicts_def)
    have ncw: "\<And>w. var_base w = var_base v \<Longrightarrow> \<not> conflicts acc w"
      using None by (simp add: conflicts_def)
    have e1: "(\<exists>err. generate_tensors acc (v # vs) = Inl err) \<longleftrightarrow>
          (\<exists>w \<in> set vs. conflicts (AList.update (var_base v) ?p acc) w) \<or> ?mix vs"
      using step None IH by (simp del: generate_tensors.simps)
    have e2: "\<And>w. conflicts (AList.update (var_base v) ?p acc) w \<longleftrightarrow>
               conflicts acc w \<or> (var_base w = var_base v \<and> var_grouped w \<noteq> var_grouped v)"
    proof -
      fix w
      show "conflicts (AList.update (var_base v) ?p acc) w \<longleftrightarrow>
               conflicts acc w \<or> (var_base w = var_base v \<and> var_grouped w \<noteq> var_grouped v)"
      proof (cases "var_base w = var_base v")
        case True
        then show ?thesis using ncw[OF True] by (simp only: conflicts_update pg) auto
      next
        case False
        then show ?thesis by (simp only: conflicts_update pg) simp
      qed
    qed
    have e3: "(\<exists>w \<in> set vs. conflicts (AList.update (var_base v) ?p acc) w) \<or> ?mix vs \<longleftrightarrow>
              (\<exists>w \<in> set (v # vs). conflicts acc w) \<or> ?mix (v # vs)"
      unfolding mixC e2 using nc by auto
    show ?thesis by (rule trans[OF e1 e3])
  next
    case (Some p)
    show ?thesis
    proof (cases "(p \<noteq> None) \<noteq> var_grouped v")
      case True
      then have "conflicts acc v" using Some by (simp add: conflicts_def)
      moreover have "generate_tensors acc (v # vs) = Inl (NameError ''node'')"
        using step Some True by (auto simp del: generate_tensors.simps)
      ultimately show ?thesis by (simp del: generate_tensors.simps)
    next
      case False
      have nc: "\<not> conflicts acc v" using Some False by (simp add: conflicts_def)
      have cw: "\<And>w. var_base w = var_base v \<Longrightarrow> conflicts acc w \<longleftrightarrow> var_grouped w \<noteq> var_grouped v"
        using Some False by (auto simp: conflicts_def)
      have "\<exists>acc'. generate_tensors acc (v # vs) = generate_tensors acc' vs
                 \<and> (\<forall>w :: ('p, 'l) variable. conflicts acc' w = conflicts acc w)"
      proof (cases "var_grouped v")
        case True
        let ?acc' = "AList.update (var_base v)
                    (Some (the p \<union> {the (tensor_group (the (var_tensor v)))})) acc"
        have "generate_tensors acc (v # vs) = generate_tensors ?acc' vs"
          using step Some False True by (auto simp del: generate_tensors.simps)
        moreover have "\<forall>w :: ('p, 'l) variable. conflicts ?acc' w = conflicts acc w"
          using cw True by (auto simp: conflicts_update)
        ultimately show ?thesis by blast
      next
        case F: False
        have "generate_tensors acc (v # vs) = generate_tensors acc vs"
          using step Some False F by (auto simp del: generate_tensors.simps)
        then show ?thesis by blast
      qed
      then obtain acc' where
        g: "generate_tensors acc (v # vs) = generate_tensors acc' vs" and
        c: "\<And>w :: ('p, 'l) variable. conflicts acc' w = conflicts acc w" by blast
      have e1: "(\<exists>err. generate_tensors acc (v # vs) = Inl err) \<longleftrightarrow>
            (\<exists>w \<in> set vs. conflicts acc w) \<or> ?mix vs"
        unfolding g IH[of acc'] using c by simp
      have e3: "(\<exists>w \<in> set vs. conflicts acc w) \<or> ?mix vs \<longleftrightarrow>
              (\<exists>w \<in> set (v # vs). conflicts acc w) \<or> ?mix (v # vs)"
        unfolding mixC using nc cw by auto
      show ?thesis by (rule trans[OF e1 e3])
    qed
  qed
qed

text \<open>
  For global variables, the loop fails exactly when grouped and single tensors are mixed
  under one base name, and then with the \<open>NameError\<close>.
\<close>

lemma generate_tensors_fails_iff:
  fixes vars :: "('p, 'l) variable list"
  assumes "\<forall>v \<in> set vars. var_tensor v \<noteq> None"
  shows "(\<exists>err. generate_tensors [] vars = Inl err) \<longleftrightarrow> mixed_grouping vars"
    and "generate_tensors [] vars = Inl err \<Longrightarrow> err = NameError ''node''"
proof -
  have nc: "\<not> (\<exists>v \<in> set vars. conflicts [] v)" by (simp add: conflicts_def)
  show "(\<exists>err. generate_tensors [] vars = Inl err) \<longleftrightarrow> mixed_grouping vars"
    unfolding generate_tensors_fails_iff_aux[OF assms] mixed_grouping_alt[OF assms]
    using nc by simp
next
  have "generate_tensors acc vars = Inl err \<Longrightarrow> err = NameError ''node''" for acc
    using assms
    by (induction vars arbitrary: acc) (auto simp: Let_def split: option.splits if_splits)
  then show "generate_tensors [] vars = Inl err \<Longrightarrow> err = NameError ''node''" .
qed

text \<open>
  C9. Collecting the single tensor \<open>A\<close> and a grouped tensor with the base name \<open>A\<close>,
  in either order, raises, but what is raised is the \<open>NameError\<close> for \<open>node\<close>, not a
  \<open>ValueError\<close> whose message names \<open>A\<close>; without the second tensor the collection
  succeeds.
\<close>

theorem generate_tensors_mixed_NameError:
  "generate_tensors [] [ex_global ''A'' None, ex_global ''A'' (Some 0)]
     = Inl (NameError ''node'')
   \<and> generate_tensors [] [ex_global ''A'' (Some 0), ex_global ''A'' None]
     = Inl (NameError ''node'')
   \<and> generate_tensors [] [ex_global ''A'' (Some 0), ex_global ''A'' (Some 1),
                             ex_global ''B'' None]
     = Inr [(''A'', Some {0, 1}), (''B'', None)]"
  by (simp add: ex_global_def ex_tensor_def insert_commute)

end
